theory Spec2Isabelle
  imports Main "HOL-Library.AList"
begin

section \<open>Python values used by \<open>main.py\<close>\<close>

text \<open>
  A Python \<open>str\<close> is modelled as a \<open>string\<close>, one \<open>char\<close> per code point, for code
  points below 256 (Latin-1). The character classes below are those of CPython's
  \<open>str.isdigit\<close>, \<open>str.isspace\<close> and \<open>str.lower\<close> on that range.
\<close>

datatype exn =
    ValueError        \<comment> \<open>raised by \<open>keywords_to_string_with_delimiter\<close>\<close>
  | JSONDecodeError   \<comment> \<open>raised by \<open>json.loads\<close>\<close>
  | ValidationError   \<comment> \<open>any other failure of \<open>ImageClassification(**keywords)\<close>\<close>
  | ServiceError      \<comment> \<open>\<open>ollama.chat\<close> failed, or the response has no message content\<close>
  | OSError           \<comment> \<open>a failed filesystem call\<close>
  | BadParameter      \<comment> \<open>\<open>typer.BadParameter\<close>\<close>

definition isdigit :: "char \<Rightarrow> bool" where
  "isdigit c = (c \<in> set ''0123456789'' \<or> c \<in> set [CHR 0xB2, CHR 0xB3, CHR 0xB9])"

text \<open>\<open>s.replace(old, new)\<close>: every non-overlapping occurrence, from the left.\<close>

function str_replace :: "string \<Rightarrow> string \<Rightarrow> string \<Rightarrow> string" where
  "str_replace old new s =
     (if old = [] then new @ concat (map (\<lambda>c. c # new) s)
      else if s = [] then []
      else if take (length old) s = old then new @ str_replace old new (drop (length old) s)
      else hd s # str_replace old new (tl s))"
  by pat_completeness auto
termination
  by (relation "measure (\<lambda>(old, new, s). length s)") (auto simp: neq_Nil_conv)

declare str_replace.simps [simp del]

text \<open>\<open>sep.join(xs)\<close>.\<close>

fun str_join :: "string \<Rightarrow> string list \<Rightarrow> string" where
  "str_join sep [] = []"
| "str_join sep [x] = x"
| "str_join sep (x # y # ys) = x @ sep @ str_join sep (y # ys)"

section \<open>The filename builder\<close>

text \<open>
  \<open>ImageClassification.keywords_to_string_with_delimiter\<close> (lines 18 to 41): the
  delimiter check, the comprehension that drops the keywords with a digit and replaces
  spaces, the slice \<open>[:5]\<close> and the join.
\<close>

definition keywords_to_string_with_delimiter :: "string list \<Rightarrow> string \<Rightarrow> exn + string" where
  "keywords_to_string_with_delimiter keywords delimiter =
     (if delimiter \<notin> set [''_'', ''-'', '' ''] then Inl ValueError
      else
        let cleaned_keywords =
              [str_replace '' '' delimiter keyword.
                 keyword \<leftarrow> keywords, \<not> list_ex isdigit keyword];
            limited_keywords = str_join delimiter (take 5 cleaned_keywords)
        in Inr limited_keywords)"

subsection \<open>The sanitization rule as the specification words it\<close>

text \<open>
  The four steps of the rule, each as its own function: (a) discard the keywords that
  contain a digit, (b) put the delimiter in place of every space of a surviving keyword,
  (c) keep the first five, (d) join with the delimiter.
\<close>

definition discard_digit_keywords :: "string list \<Rightarrow> string list" where
  "discard_digit_keywords ks = filter (\<lambda>k. \<forall>c \<in> set k. \<not> isdigit c) ks"

definition space_to_delimiter :: "string \<Rightarrow> string \<Rightarrow> string" where
  "space_to_delimiter d k = concat (map (\<lambda>c. if c = CHR '' '' then d else [c]) k)"

definition sanitize_spec :: "string \<Rightarrow> string list \<Rightarrow> string list" where
  "sanitize_spec d ks = take 5 (map (space_to_delimiter d) (discard_digit_keywords ks))"

definition joined_with :: "string \<Rightarrow> string list \<Rightarrow> string" where
  "joined_with d xs = (case xs of [] \<Rightarrow> [] | x # rest \<Rightarrow> x @ concat (map (\<lambda>y. d @ y) rest))"

section \<open>Properties of the filename builder\<close>

lemma str_replace_Nil: "old \<noteq> [] \<Longrightarrow> str_replace old new [] = []"
  by (simp add: str_replace.simps)

lemma str_replace_space_Cons:
  "str_replace '' '' d (c # cs) = (if c = CHR '' '' then d else [c]) @ str_replace '' '' d cs"
  by (subst str_replace.simps) simp

lemma str_replace_space: "str_replace '' '' d k = space_to_delimiter d k"
  by (induction k) (simp_all add: str_replace_Nil str_replace_space_Cons space_to_delimiter_def)

lemma str_join_joined_with: "str_join d xs = joined_with d xs"
  by (induction d xs rule: str_join.induct) (simp_all add: joined_with_def)

lemma cleaned_eq:
  "[str_replace '' '' d keyword. keyword \<leftarrow> ks, \<not> list_ex isdigit keyword]
     = map (space_to_delimiter d) (discard_digit_keywords ks)"
  by (induction ks) (simp_all add: discard_digit_keywords_def list_ex_iff str_replace_space)

lemma accepted_no_digit:
  "d \<in> set [''_'', ''-'', '' ''] \<Longrightarrow> \<forall>c \<in> set d. \<not> isdigit c"
  by (auto simp: isdigit_def)

lemma space_to_delimiter_no_digit:
  "\<forall>c \<in> set d. \<not> isdigit c \<Longrightarrow> \<forall>c \<in> set k. \<not> isdigit c \<Longrightarrow>
     \<forall>c \<in> set (space_to_delimiter d k). \<not> isdigit c"
  by (induction k) (auto simp: space_to_delimiter_def)

lemma sanitize_spec_no_digit:
  assumes "\<forall>c \<in> set d. \<not> isdigit c"
  shows "\<forall>e \<in> set (sanitize_spec d ks). \<forall>c \<in> set e. \<not> isdigit c"
proof
  fix e assume "e \<in> set (sanitize_spec d ks)"
  then have "e \<in> set (map (space_to_delimiter d) (discard_digit_keywords ks))"
    unfolding sanitize_spec_def by (rule in_set_takeD)
  then obtain k where k: "k \<in> set (discard_digit_keywords ks)" and e: "e = space_to_delimiter d k"
    by auto
  from k have "\<forall>c \<in> set k. \<not> isdigit c" by (simp add: discard_digit_keywords_def)
  with assms e show "\<forall>c \<in> set e. \<not> isdigit c"
    using space_to_delimiter_no_digit by blast
qed

lemma set_joined_with:
  "set (joined_with d xs) \<subseteq> set d \<union> \<Union> (set ` set xs)"
  by (cases xs) (auto simp: joined_with_def)

text \<open>
  Claim C1. For every keyword list and every accepted delimiter the builder returns the
  string that the four-step rule gives: the keywords with a digit discarded, spaces
  replaced by the delimiter, the first five survivors in their order, joined by the
  delimiter. At most five keywords are joined, none of them has a digit, and the
  returned string has no digit at all.
\<close>

theorem builder_sanitizes:
  assumes "delimiter \<in> set [''_'', ''-'', '' '']"
  shows "keywords_to_string_with_delimiter keywords delimiter
           = Inr (joined_with delimiter (sanitize_spec delimiter keywords))
         \<and> length (sanitize_spec delimiter keywords) \<le> 5
         \<and> (\<forall>e \<in> set (sanitize_spec delimiter keywords). \<not> list_ex isdigit e)
         \<and> \<not> list_ex isdigit (joined_with delimiter (sanitize_spec delimiter keywords))"
proof -
  have nd: "\<forall>c \<in> set delimiter. \<not> isdigit c"
    using assms by (rule accepted_no_digit)
  have e: "\<forall>e \<in> set (sanitize_spec delimiter keywords). \<forall>c \<in> set e. \<not> isdigit c"
    using nd by (rule sanitize_spec_no_digit)
  have "keywords_to_string_with_delimiter keywords delimiter
           = Inr (joined_with delimiter (sanitize_spec delimiter keywords))"
    using assms
    by (simp add: keywords_to_string_with_delimiter_def cleaned_eq str_join_joined_with
        sanitize_spec_def del: set_simps)
  moreover have "length (sanitize_spec delimiter keywords) \<le> 5"
    by (simp add: sanitize_spec_def)
  moreover have "\<forall>e \<in> set (sanitize_spec delimiter keywords). \<not> list_ex isdigit e"
    using e by (simp add: list_ex_iff)
  moreover have "\<not> list_ex isdigit (joined_with delimiter (sanitize_spec delimiter keywords))"
    using set_joined_with [of delimiter "sanitize_spec delimiter keywords"] nd e
    by (auto simp: list_ex_iff)
  ultimately show ?thesis by blast
qed

theorem builder_sanitizes_witness:
  "''_'' \<in> set [''_'', ''-'', '' '']
   \<and> keywords_to_string_with_delimiter
        [''sunset'', ''beach'', ''ocean2'', ''wave'', ''sky'', ''cloud''] ''_''
       = Inr ''sunset_beach_wave_sky_cloud''
   \<and> sanitize_spec ''_'' [''sunset'', ''beach'', ''ocean2'', ''wave'', ''sky'', ''cloud'']
       = [''sunset'', ''beach'', ''wave'', ''sky'', ''cloud'']"
  using builder_sanitizes [of "''_''" "[''sunset'', ''beach'', ''ocean2'', ''wave'', ''sky'', ''cloud'']"]
  by (simp add: sanitize_spec_def discard_digit_keywords_def space_to_delimiter_def
      joined_with_def isdigit_def)

end
